theory Spec2Isabelle
  imports Main
begin

section \<open>Data model\<close>

text \<open>
  The repository holds several versions of one React component, \<^verbatim>\<open>App\<close>:
  \<^verbatim>\<open>src/src/App.jsx\<close>, \<^verbatim>\<open>src/unnamed/part_001\<close> and three more in
  \<^verbatim>\<open>src/unnamed/part_000\<close> (lines 1-266, 268-608 and 610-880; the second is
  \<^verbatim>\<open>App.jsx\<close> again). A definition without suffix embeds \<^verbatim>\<open>App.jsx\<close>, or
  text that is the same in every version that has it; the suffix \<open>_part_001\<close> marks
  the version of \<^verbatim>\<open>part_001\<close> and the suffix \<open>_part_000\<close> the version at lines
  610-880 of \<^verbatim>\<open>part_000\<close>, where they differ.
\<close>

text \<open>The user object of a session: \<^verbatim>\<open>user.id\<close> and \<^verbatim>\<open>user.email\<close>.\<close>

record auth_user =
  auth_id :: string
  auth_email :: string

text \<open>
  A row of the table \<^verbatim>\<open>instruments\<close>: \<^verbatim>\<open>id\<close>, \<^verbatim>\<open>name\<close>, \<^verbatim>\<open>user_id\<close>.
  The code only compares identifiers with \<^verbatim>\<open>===\<close>; they are numbers here.
\<close>

record instrument =
  id' :: nat
  name :: string
  user_id :: string

text \<open>The payload of a \<^verbatim>\<open>postgres_changes\<close> notification.\<close>

record payload =
  eventType :: string
  new :: instrument
  old :: instrument

section \<open>The live-update handler\<close>

text \<open>
  The callback registered on the channel \<^verbatim>\<open>instruments-updates\<close>
  (\<^verbatim>\<open>part_001\<close> lines 52-66, \<^verbatim>\<open>part_000\<close> lines 62-76 and 669-679, the same
  text in all three). Each branch hands \<^verbatim>\<open>setInstruments\<close> a function of the previous
  cache; an event type other than the three leaves the cache alone.
\<close>

definition on_postgres_changes :: "payload \<Rightarrow> instrument list \<Rightarrow> instrument list" where
  "on_postgres_changes p prev =
     (if eventType p = ''INSERT'' then prev @ [new p]
      else if eventType p = ''DELETE'' then
        filter (\<lambda>item. id' item \<noteq> id' (old p)) prev
      else if eventType p = ''UPDATE'' then
        map (\<lambda>item. if id' item = id' (new p) then new p else item) prev
      else prev)"

text \<open>The cache after a sequence of notifications, delivered in order.\<close>

definition apply_notifications :: "payload list \<Rightarrow> instrument list \<Rightarrow> instrument list" where
  "apply_notifications ps cache = foldl (\<lambda>prev p. on_postgres_changes p prev) cache ps"

subsection \<open>The replay of the specification\<close>

text \<open>
  The three operations as the specification words them, on an ordered collection that
  holds at most one row per identifier: insert-if-absent, replace-by-id, remove-by-id.
  These follow the specification, not the source; the theorems below compare them
  with \<^const>\<open>on_postgres_changes\<close>.
\<close>

definition present :: "nat \<Rightarrow> instrument list \<Rightarrow> bool" where
  "present i xs = (find (\<lambda>x. id' x = i) xs \<noteq> None)"

definition spec_insert_if_absent :: "instrument \<Rightarrow> instrument list \<Rightarrow> instrument list" where
  "spec_insert_if_absent r xs = (if present (id' r) xs then xs else xs @ [r])"

fun spec_replace_by_id :: "instrument \<Rightarrow> instrument list \<Rightarrow> instrument list" where
  "spec_replace_by_id r [] = []"
| "spec_replace_by_id r (x # xs) =
     (if id' x = id' r then r # xs else x # spec_replace_by_id r xs)"

fun spec_remove_by_id :: "nat \<Rightarrow> instrument list \<Rightarrow> instrument list" where
  "spec_remove_by_id i [] = []"
| "spec_remove_by_id i (x # xs) =
     (if id' x = i then xs else x # spec_remove_by_id i xs)"

definition spec_step :: "payload \<Rightarrow> instrument list \<Rightarrow> instrument list" where
  "spec_step p xs =
     (if eventType p = ''INSERT'' then spec_insert_if_absent (new p) xs
      else if eventType p = ''DELETE'' then spec_remove_by_id (id' (old p)) xs
      else if eventType p = ''UPDATE'' then spec_replace_by_id (new p) xs
      else xs)"

definition spec_replay :: "payload list \<Rightarrow> instrument list \<Rightarrow> instrument list" where
  "spec_replay ps xs = foldl (\<lambda>prev p. spec_step p prev) xs ps"

text \<open>
  No insert notification of the sequence carries an identifier that the cache holds
  when the handler applies it.
\<close>

fun inserts_fresh :: "payload list \<Rightarrow> instrument list \<Rightarrow> bool" where
  "inserts_fresh [] cache = True"
| "inserts_fresh (p # ps) cache =
     ((eventType p = ''INSERT'' \<longrightarrow> \<not> present (id' (new p)) cache)
      \<and> inserts_fresh ps (on_postgres_changes p cache))"

section \<open>Component state and the remote service\<close>

text \<open>
  The \<^verbatim>\<open>useState\<close> cells of \<^verbatim>\<open>App\<close>. The version of \<^verbatim>\<open>part_001\<close> has the
  first seven; \<^verbatim>\<open>App.jsx\<close> and the versions of \<^verbatim>\<open>part_000\<close> add \<^verbatim>\<open>loading\<close>.
  A handler that never touches \<^verbatim>\<open>loading\<close> is defined on the extensible record and
  so serves every version.
\<close>

record core_state =
  email :: string
  password :: string
  user :: "auth_user option"
  instrumentName :: string
  instruments :: "instrument list"
  avatarUrl :: "string option"
  uploading :: bool

record app_state = core_state +
  loading :: bool

text \<open>The error object of a response (\<^verbatim>\<open>error.message\<close>) and the object a file input yields.\<close>

record error =
  message :: string

record input_file =
  file_name :: string

text \<open>
  A response of the client library, destructured by the code as
  \<^verbatim>\<open>{ data, error }\<close>; either part may be \<^verbatim>\<open>null\<close>.
\<close>

record 'a response =
  data :: "'a option"
  error :: "error option"

record profile =
  avatar_url :: "string option"

record session =
  session_user :: "auth_user option"

text \<open>
  What a handler does besides writing state cells: requests to the remote service,
  dialogs, console output and navigation, in the order issued.
\<close>

datatype effect =
    GetSession
  | OnAuthStateChange
  | SignInWithPassword string string
  | SignOut
  | SelectInstruments string
  | SelectProfile string
  | InsertInstrument string string
  | StorageUpload string input_file
  | ProfileUpsert string string
  | ProfileUpdate string string
  | GetPublicUrl string
  | Alert string
  | ConsoleError string string
  | ConsoleWarn string string
  | Redirect string
  | UnhandledRejection string

text \<open>
  The message of the \<^verbatim>\<open>TypeError\<close> that reading \<^verbatim>\<open>user.id\<close> throws when
  \<^verbatim>\<open>user\<close> is \<^verbatim>\<open>null\<close> (the wording of V8).
\<close>

definition null_id_message :: string where
  "null_id_message = ''Cannot read properties of null (reading 'id')''"

text \<open>\<^verbatim>\<open>session?.user ?? null\<close>\<close>

definition session_user_or_null :: "session option \<Rightarrow> auth_user option" where
  "session_user_or_null s = (case s of None \<Rightarrow> None | Some x \<Rightarrow> session_user x)"

text \<open>\<^verbatim>\<open>data?.avatar_url\<close> as a condition: the stored path, when it is a non-empty string.\<close>

definition stored_path :: "profile option \<Rightarrow> string option" where
  "stored_path d =
     (case d of None \<Rightarrow> None
      | Some pr \<Rightarrow> (case avatar_url pr of None \<Rightarrow> None
                   | Some path \<Rightarrow> if path = [] then None else Some path))"

text \<open>\<^verbatim>\<open>file.name.split(".").pop()\<close>: what follows the last dot, or the whole name.\<close>

definition fileExt :: "string \<Rightarrow> string" where
  "fileExt nm = rev (takeWhile (\<lambda>c. c \<noteq> CHR ''.'') (rev nm))"

section \<open>Start-up and rendering\<close>

datatype view = LoadingView | LoginView | DashboardView

definition initial_state :: app_state where
  "initial_state =
     \<lparr>email = [], password = [], user = None, instrumentName = [], instruments = [],
      avatarUrl = None, uploading = False, loading = True\<rparr>"

definition initial_state_part_001 :: core_state where
  "initial_state_part_001 =
     \<lparr>email = [], password = [], user = None, instrumentName = [], instruments = [],
      avatarUrl = None, uploading = False\<rparr>"

text \<open>
  The body of the first \<^verbatim>\<open>useEffect\<close> (dependency list \<^verbatim>\<open>[]\<close>, so run when the
  component mounts) up to its first suspension: \<^verbatim>\<open>fetchUser()\<close> issues
  \<^verbatim>\<open>getSession\<close> and suspends, then the listener is registered. No cell is written.
  The same in every version.
\<close>

definition mount :: "'a core_state_scheme \<Rightarrow> 'a core_state_scheme \<times> effect list" where
  "mount s = (s, [GetSession, OnAuthStateChange])"

text \<open>The rest of \<^verbatim>\<open>fetchUser\<close>, run when \<^verbatim>\<open>getSession\<close> resolves.\<close>

definition fetchUser :: "session option \<Rightarrow> app_state \<Rightarrow> app_state" where
  "fetchUser sess s = s\<lparr>user := session_user_or_null sess, loading := False\<rparr>"

definition fetchUser_part_001 :: "session option \<Rightarrow> core_state \<Rightarrow> core_state" where
  "fetchUser_part_001 sess s = s\<lparr>user := session_user_or_null sess\<rparr>"

text \<open>What the component returns: \<^verbatim>\<open>App.jsx\<close> lines 178-285, \<^verbatim>\<open>part_001\<close> lines 160-240.\<close>

definition render :: "app_state \<Rightarrow> view" where
  "render s = (if loading s then LoadingView
               else if user s = None then LoginView
               else DashboardView)"

definition render_part_001 :: "core_state \<Rightarrow> view" where
  "render_part_001 s = (if user s = None then LoginView else DashboardView)"

section \<open>Handlers\<close>

text \<open>
  An \<^verbatim>\<open>async\<close> handler is embedded as a function from the state in which it starts
  to the state its own writes produce and the effects it issues. Whatever it awaits
  from the remote service is a parameter: the destructured \<^verbatim>\<open>error\<close> of a response is
  an \<open>error option\<close> (\<open>None\<close> for \<^verbatim>\<open>null\<close>), and \<^verbatim>\<open>getPublicUrl\<close>, which the
  storage client computes locally, is a function from path to URL.
\<close>

subsection \<open>Row list cache\<close>

text \<open>\<^verbatim>\<open>App.jsx\<close> lines 51-59; \<^verbatim>\<open>data || []\<close> turns a \<^verbatim>\<open>null\<close> into the empty list.\<close>

definition fetchInstruments ::
  "auth_user \<Rightarrow> instrument list response \<Rightarrow> 'a core_state_scheme
   \<Rightarrow> 'a core_state_scheme \<times> effect list" where
  "fetchInstruments u res s =
     (case error res of
        Some e \<Rightarrow>
          (s, [SelectInstruments (auth_id u),
               ConsoleError ''Error fetching instruments:'' (message e)])
      | None \<Rightarrow>
          (s\<lparr>instruments := (case data res of None \<Rightarrow> [] | Some rows \<Rightarrow> rows)\<rparr>,
           [SelectInstruments (auth_id u)]))"

text \<open>
  \<^verbatim>\<open>part_001\<close> lines 74-82: the user comes from the component's closure, and the rows
  are stored as returned (\<^verbatim>\<open>setInstruments(data)\<close>), so they are taken as a list here:
  a select that reports no error returns an array.
\<close>

definition fetchInstruments_part_001 ::
  "instrument list \<Rightarrow> error option \<Rightarrow> 'a core_state_scheme
   \<Rightarrow> 'a core_state_scheme \<times> effect list" where
  "fetchInstruments_part_001 rows err s =
     (case user s of
        None \<Rightarrow> (s, [UnhandledRejection null_id_message])
      | Some u \<Rightarrow>
          (case err of
             Some e \<Rightarrow>
               (s, [SelectInstruments (auth_id u),
                    ConsoleError ''Error fetching instruments:'' (message e)])
           | None \<Rightarrow> (s\<lparr>instruments := rows\<rparr>, [SelectInstruments (auth_id u)])))"

text \<open>\<^verbatim>\<open>handleAddInstrument\<close>, the same in every version (\<^verbatim>\<open>App.jsx\<close> lines 133-140).\<close>

definition handleAddInstrument ::
  "error option \<Rightarrow> 'a core_state_scheme \<Rightarrow> 'a core_state_scheme \<times> effect list" where
  "handleAddInstrument err s =
     (if instrumentName s = [] then (s, [])
      else
        (case user s of
           None \<Rightarrow> (s, [UnhandledRejection null_id_message])
         | Some u \<Rightarrow>
             (case err of
                Some e \<Rightarrow>
                  (s, [InsertInstrument (instrumentName s) (auth_id u),
                       Alert (''Error adding instrument: '' @ message e)])
              | None \<Rightarrow>
                  (s\<lparr>instrumentName := []\<rparr>,
                   [InsertInstrument (instrumentName s) (auth_id u)]))))"

subsection \<open>Avatar resolver\<close>

text \<open>\<^verbatim>\<open>fetchProfile\<close> of \<^verbatim>\<open>App.jsx\<close>, lines 62-82: an error returns before any write.\<close>

definition fetchProfile ::
  "(string \<Rightarrow> string) \<Rightarrow> auth_user \<Rightarrow> profile response \<Rightarrow> 'a core_state_scheme
   \<Rightarrow> 'a core_state_scheme \<times> effect list" where
  "fetchProfile getPublicUrl u res s =
     (case error res of
        Some e \<Rightarrow>
          (s, [SelectProfile (auth_id u), ConsoleWarn ''No profile found:'' (message e)])
      | None \<Rightarrow>
          (case stored_path (data res) of
             Some path \<Rightarrow>
               (s\<lparr>avatarUrl := Some (getPublicUrl path)\<rparr>,
                [SelectProfile (auth_id u), GetPublicUrl path])
           | None \<Rightarrow> (s\<lparr>avatarUrl := None\<rparr>, [SelectProfile (auth_id u)])))"

text \<open>
  \<^verbatim>\<open>fetchProfile\<close> of \<^verbatim>\<open>part_001\<close>, lines 84-97 (and of \<^verbatim>\<open>part_000\<close>, lines
  94-106): one \<^verbatim>\<open>if\<close> with no \<^verbatim>\<open>else\<close>.
\<close>

definition fetchProfile_part_001 ::
  "(string \<Rightarrow> string) \<Rightarrow> profile response \<Rightarrow> 'a core_state_scheme
   \<Rightarrow> 'a core_state_scheme \<times> effect list" where
  "fetchProfile_part_001 getPublicUrl res s =
     (case user s of
        None \<Rightarrow> (s, [UnhandledRejection null_id_message])
      | Some u \<Rightarrow>
          (if error res = None \<and> stored_path (data res) \<noteq> None then
             (case stored_path (data res) of
                Some path \<Rightarrow>
                  (s\<lparr>avatarUrl := Some (getPublicUrl path)\<rparr>,
                   [SelectProfile (auth_id u), GetPublicUrl path])
              | None \<Rightarrow> (s, [SelectProfile (auth_id u)]))
           else (s, [SelectProfile (auth_id u)])))"

text \<open>
  \<^verbatim>\<open>fetchAvatar\<close> of \<^verbatim>\<open>part_000\<close>, lines 699-716: the \<^verbatim>\<open>else\<close> branch publishes
  \<^verbatim>\<open>null\<close>; \<^verbatim>\<open>publicData?.publicUrl ?? null\<close> lets the resolved URL be absent.
\<close>

definition fetchAvatar_part_000 ::
  "(string \<Rightarrow> string option) \<Rightarrow> profile response \<Rightarrow> 'a core_state_scheme
   \<Rightarrow> 'a core_state_scheme \<times> effect list" where
  "fetchAvatar_part_000 getPublicUrl res s =
     (case user s of
        None \<Rightarrow> (s, [])
      | Some u \<Rightarrow>
          (if error res = None \<and> stored_path (data res) \<noteq> None then
             (case stored_path (data res) of
                Some path \<Rightarrow>
                  (s\<lparr>avatarUrl := getPublicUrl path\<rparr>,
                   [SelectProfile (auth_id u), GetPublicUrl path])
              | None \<Rightarrow> (s\<lparr>avatarUrl := None\<rparr>, [SelectProfile (auth_id u)]))
           else (s\<lparr>avatarUrl := None\<rparr>, [SelectProfile (auth_id u)])))"

subsection \<open>Session tracker\<close>

text \<open>
  The listener of \<^verbatim>\<open>onAuthStateChange\<close> in \<^verbatim>\<open>App.jsx\<close>, lines 32-42.
  \<^verbatim>\<open>fetchProfile\<close> and \<^verbatim>\<open>fetchInstruments\<close> are started without \<^verbatim>\<open>await\<close>; the
  embedding runs both to completion in the order started. They write cells that the
  listener's own last write, \<^verbatim>\<open>setLoading(false)\<close>, does not touch.
\<close>

definition onAuthStateChange ::
  "(string \<Rightarrow> string) \<Rightarrow> session option \<Rightarrow> profile response \<Rightarrow> instrument list response
   \<Rightarrow> app_state \<Rightarrow> app_state \<times> effect list" where
  "onAuthStateChange getPublicUrl sess profileRes instrumentsRes s =
     (let s1 = s\<lparr>user := session_user_or_null sess\<rparr> in
      case session_user_or_null sess of
        Some u \<Rightarrow>
          (let (s2, fx1) = fetchProfile getPublicUrl u profileRes s1;
               (s3, fx2) = fetchInstruments u instrumentsRes s2
           in (s3\<lparr>loading := False\<rparr>, fx1 @ fx2))
      | None \<Rightarrow> (s1\<lparr>avatarUrl := None, instruments := [], loading := False\<rparr>, []))"

text \<open>The listener of \<^verbatim>\<open>part_001\<close>, lines 29-31.\<close>

definition onAuthStateChange_part_001 :: "session option \<Rightarrow> core_state \<Rightarrow> core_state" where
  "onAuthStateChange_part_001 sess s = s\<lparr>user := session_user_or_null sess\<rparr>"

text \<open>
  \<^verbatim>\<open>handleLogin\<close> of \<^verbatim>\<open>App.jsx\<close>, lines 85-98: the error of the response is thrown
  and caught, its message shown by \<^verbatim>\<open>alert\<close>; \<^verbatim>\<open>finally\<close> resets \<^verbatim>\<open>loading\<close>.
\<close>

definition handleLogin :: "error option \<Rightarrow> app_state \<Rightarrow> app_state \<times> effect list" where
  "handleLogin err s =
     (let s1 = s\<lparr>loading := True\<rparr>;
          request = SignInWithPassword (email s) (password s)
      in case err of
           Some e \<Rightarrow> (s1\<lparr>loading := False\<rparr>, [request, Alert (message e)])
         | None \<Rightarrow> (s1\<lparr>loading := False\<rparr>, [request]))"

text \<open>\<^verbatim>\<open>handleLogin\<close> of \<^verbatim>\<open>part_001\<close>, lines 100-104.\<close>

definition handleLogin_part_001 ::
  "error option \<Rightarrow> core_state \<Rightarrow> core_state \<times> effect list" where
  "handleLogin_part_001 err s =
     (let request = SignInWithPassword (email s) (password s)
      in case err of
           Some e \<Rightarrow> (s, [request, Alert (''Login failed: '' @ message e)])
         | None \<Rightarrow> (s, [request, Redirect ''https://stingray-app-5y3zr.ondigitalocean.app/'']))"

text \<open>
  \<^verbatim>\<open>handleLogout\<close>: \<^verbatim>\<open>App.jsx\<close> lines 125-130 write three cells;
  \<^verbatim>\<open>part_001\<close> lines 113-117 write two, as do \<^verbatim>\<open>part_000\<close> lines 135-139 and
  lines 747-752, where the third write is commented out. The result of
  \<^verbatim>\<open>signOut\<close> is not looked at.
\<close>

definition handleLogout :: "'a core_state_scheme \<Rightarrow> 'a core_state_scheme \<times> effect list" where
  "handleLogout s = (s\<lparr>user := None, instruments := [], avatarUrl := None\<rparr>, [SignOut])"

definition handleLogout_part_001 ::
  "'a core_state_scheme \<Rightarrow> 'a core_state_scheme \<times> effect list" where
  "handleLogout_part_001 s = (s\<lparr>user := None, instruments := []\<rparr>, [SignOut])"

subsection \<open>Upload flow\<close>

text \<open>
  The \<^verbatim>\<open>try\<close> block of \<^verbatim>\<open>handleAvatarUpload\<close> after \<^verbatim>\<open>setUploading(true)\<close>
  (\<^verbatim>\<open>App.jsx\<close> lines 146-170, \<^verbatim>\<open>part_001\<close> lines 131-151). \<open>Inl\<close> carries the
  message of the error thrown, \<open>Inr\<close> the state when the block ends or returns.
  \<^verbatim>\<open>e.target.files[0]\<close> is the head of the list of files, \<^verbatim>\<open>undefined\<close> when the
  list is empty.
\<close>

definition handleAvatarUpload_try ::
  "(string \<Rightarrow> string) \<Rightarrow> input_file list \<Rightarrow> error option \<Rightarrow> error option
   \<Rightarrow> 'a core_state_scheme \<Rightarrow> (string + 'a core_state_scheme) \<times> effect list" where
  "handleAvatarUpload_try getPublicUrl files uploadError updateError s =
     (case files of
        [] \<Rightarrow> (Inr s, [])
      | f # _ \<Rightarrow>
          (case user s of
             None \<Rightarrow> (Inl null_id_message, [])
           | Some u \<Rightarrow>
               (let filePath = auth_id u @ ''.'' @ fileExt (file_name f) in
                case uploadError of
                  Some e \<Rightarrow> (Inl (message e), [StorageUpload filePath f])
                | None \<Rightarrow>
                    (case updateError of
                       Some e \<Rightarrow>
                         (Inl (message e),
                          [StorageUpload filePath f, ProfileUpsert (auth_id u) filePath])
                     | None \<Rightarrow>
                         (Inr (s\<lparr>avatarUrl := Some (getPublicUrl filePath)\<rparr>),
                          [StorageUpload filePath f, ProfileUpsert (auth_id u) filePath,
                           GetPublicUrl filePath])))))"

text \<open>The whole handler: \<^verbatim>\<open>catch\<close> shows the message, \<^verbatim>\<open>finally\<close> resets the flag.\<close>

definition handleAvatarUpload ::
  "(string \<Rightarrow> string) \<Rightarrow> input_file list \<Rightarrow> error option \<Rightarrow> error option
   \<Rightarrow> 'a core_state_scheme \<Rightarrow> 'a core_state_scheme \<times> effect list" where
  "handleAvatarUpload getPublicUrl files uploadError updateError s =
     (let s1 = s\<lparr>uploading := True\<rparr> in
      case handleAvatarUpload_try getPublicUrl files uploadError updateError s1 of
        (Inl msg, fx) \<Rightarrow>
          (s1\<lparr>uploading := False\<rparr>, fx @ [Alert (''Avatar upload failed: '' @ msg)])
      | (Inr s2, fx) \<Rightarrow> (s2\<lparr>uploading := False\<rparr>, fx))"

text \<open>
  The version of \<^verbatim>\<open>part_000\<close>, lines 767-797: the path is prefixed, the profile is
  written with \<^verbatim>\<open>update\<close>, and the resolved URL may be absent.
\<close>

definition handleAvatarUpload_try_part_000 ::
  "(string \<Rightarrow> string option) \<Rightarrow> input_file list \<Rightarrow> error option \<Rightarrow> error option
   \<Rightarrow> 'a core_state_scheme \<Rightarrow> (string + 'a core_state_scheme) \<times> effect list" where
  "handleAvatarUpload_try_part_000 getPublicUrl files uploadError updateError s =
     (case files of
        [] \<Rightarrow> (Inr s, [])
      | f # _ \<Rightarrow>
          (case user s of
             None \<Rightarrow> (Inl null_id_message, [])
           | Some u \<Rightarrow>
               (let filePath = ''avatars/'' @ auth_id u @ ''.'' @ fileExt (file_name f) in
                case uploadError of
                  Some e \<Rightarrow> (Inl (message e), [StorageUpload filePath f])
                | None \<Rightarrow>
                    (case updateError of
                       Some e \<Rightarrow>
                         (Inl (message e),
                          [StorageUpload filePath f, ProfileUpdate (auth_id u) filePath])
                     | None \<Rightarrow>
                         (Inr (s\<lparr>avatarUrl := getPublicUrl filePath\<rparr>),
                          [StorageUpload filePath f, ProfileUpdate (auth_id u) filePath,
                           GetPublicUrl filePath])))))"

definition handleAvatarUpload_part_000 ::
  "(string \<Rightarrow> string option) \<Rightarrow> input_file list \<Rightarrow> error option \<Rightarrow> error option
   \<Rightarrow> 'a core_state_scheme \<Rightarrow> 'a core_state_scheme \<times> effect list" where
  "handleAvatarUpload_part_000 getPublicUrl files uploadError updateError s =
     (let s1 = s\<lparr>uploading := True\<rparr> in
      case handleAvatarUpload_try_part_000 getPublicUrl files uploadError updateError s1 of
        (Inl msg, fx) \<Rightarrow>
          (s1\<lparr>uploading := False\<rparr>, fx @ [Alert (''Avatar upload failed: '' @ msg)])
      | (Inr s2, fx) \<Rightarrow> (s2\<lparr>uploading := False\<rparr>, fx))"

section \<open>Example values\<close>

definition alice :: auth_user where
  "alice = \<lparr>auth_id = ''u1'', auth_email = ''alice@example.org''\<rparr>"

definition oud :: instrument where
  "oud = \<lparr>id' = 1, name = ''oud'', user_id = ''u1''\<rparr>"

definition lute :: instrument where
  "lute = \<lparr>id' = 1, name = ''lute'', user_id = ''u1''\<rparr>"

definition ney :: instrument where
  "ney = \<lparr>id' = 2, name = ''ney'', user_id = ''u1''\<rparr>"

definition notify :: "string \<Rightarrow> instrument \<Rightarrow> payload" where
  "notify ev r = \<lparr>eventType = ev, new = r, old = r\<rparr>"

definition example_notifications :: "payload list" where
  "example_notifications =
     [notify ''INSERT'' oud, notify ''UPDATE'' lute, notify ''INSERT'' ney,
      notify ''DELETE'' oud]"

definition public_url :: "string \<Rightarrow> string" where
  "public_url path = ''https://cdn.example.org/avatars/'' @ path"

definition denied :: error where
  "denied = \<lparr>message = ''permission denied''\<rparr>"

definition invalid_credentials :: error where
  "invalid_credentials = \<lparr>message = ''Invalid login credentials''\<rparr>"

definition photo :: input_file where
  "photo = \<lparr>file_name = ''me.final.png''\<rparr>"

text \<open>
  A dashboard that still shows the avatar of an earlier user \<^verbatim>\<open>u0\<close>, and the login
  screen with a wrong password typed in; each once per shape of the state.
\<close>

definition dashboard :: app_state where
  "dashboard =
     \<lparr>email = ''alice@example.org'', password = ''pw'', user = Some alice,
      instrumentName = ''ney'', instruments = [oud],
      avatarUrl = Some ''https://cdn.example.org/avatars/u0.png'', uploading = False,
      loading = False\<rparr>"

definition dashboard_part_001 :: core_state where
  "dashboard_part_001 =
     \<lparr>email = ''alice@example.org'', password = ''pw'', user = Some alice,
      instrumentName = ''ney'', instruments = [oud],
      avatarUrl = Some ''https://cdn.example.org/avatars/u0.png'', uploading = False\<rparr>"

definition login_screen :: app_state where
  "login_screen =
     \<lparr>email = ''alice@example.org'', password = ''wrong'', user = None,
      instrumentName = [], instruments = [], avatarUrl = None, uploading = False,
      loading = False\<rparr>"

definition login_screen_part_001 :: core_state where
  "login_screen_part_001 =
     \<lparr>email = ''alice@example.org'', password = ''wrong'', user = None,
      instrumentName = [], instruments = [], avatarUrl = None, uploading = False\<rparr>"

section \<open>The live-update handler against the replay\<close>

lemma present_iff: "present i xs \<longleftrightarrow> i \<in> id' ` set xs"
  by (induction xs) (auto simp: present_def)

lemma filter_absent:
  "i \<notin> id' ` set xs \<Longrightarrow> filter (\<lambda>item. id' item \<noteq> i) xs = xs"
  by (induction xs) simp_all

lemma map_absent:
  "id' r \<notin> id' ` set xs \<Longrightarrow> map (\<lambda>item. if id' item = id' r then r else item) xs = xs"
  by (induction xs) simp_all

text \<open>
  On a cache with one row per identifier, \<^verbatim>\<open>filter\<close> removes what remove-by-id
  removes and \<^verbatim>\<open>map\<close> replaces what replace-by-id replaces.
\<close>

lemma filter_remove:
  "distinct (map id' xs) \<Longrightarrow> filter (\<lambda>item. id' item \<noteq> i) xs = spec_remove_by_id i xs"
proof (induction xs)
  case Nil
  show ?case by simp
next
  case (Cons x xs)
  from Cons.prems have fresh: "id' x \<notin> id' ` set xs" and d: "distinct (map id' xs)"
    by simp_all
  show ?case
  proof (cases "id' x = i")
    case True
    with fresh have "i \<notin> id' ` set xs" by simp
    then have "filter (\<lambda>item. id' item \<noteq> i) xs = xs" by (rule filter_absent)
    with True show ?thesis by simp
  next
    case False
    with Cons.IH [OF d] show ?thesis by simp
  qed
qed

lemma map_replace:
  "distinct (map id' xs) \<Longrightarrow>
   map (\<lambda>item. if id' item = id' r then r else item) xs = spec_replace_by_id r xs"
proof (induction xs)
  case Nil
  show ?case by simp
next
  case (Cons x xs)
  from Cons.prems have fresh: "id' x \<notin> id' ` set xs" and d: "distinct (map id' xs)"
    by simp_all
  show ?case
  proof (cases "id' x = id' r")
    case True
    with fresh have "id' r \<notin> id' ` set xs" by simp
    then have "map (\<lambda>item. if id' item = id' r then r else item) xs = xs"
      by (rule map_absent)
    with True show ?thesis by simp
  next
    case False
    with Cons.IH [OF d] show ?thesis by simp
  qed
qed

lemma ids_update:
  "map id' (map (\<lambda>item. if id' item = id' r then r else item) xs) = map id' xs"
  by (induction xs) simp_all

text \<open>One notification: the handler keeps identifiers distinct and agrees with the replay.\<close>

lemma handler_distinct:
  "distinct (map id' xs) \<Longrightarrow>
   (eventType p = ''INSERT'' \<longrightarrow> \<not> present (id' (new p)) xs) \<Longrightarrow>
   distinct (map id' (on_postgres_changes p xs))"
  unfolding on_postgres_changes_def
  by (simp add: present_iff ids_update distinct_map_filter del: map_map)

lemma handler_spec_step:
  "distinct (map id' xs) \<Longrightarrow>
   (eventType p = ''INSERT'' \<longrightarrow> \<not> present (id' (new p)) xs) \<Longrightarrow>
   on_postgres_changes p xs = spec_step p xs"
  by (simp add: on_postgres_changes_def spec_step_def spec_insert_if_absent_def
      filter_remove map_replace)

lemma handler_replay_from:
  "distinct (map id' xs) \<Longrightarrow> inserts_fresh ps xs \<Longrightarrow>
   apply_notifications ps xs = spec_replay ps xs
   \<and> distinct (map id' (apply_notifications ps xs))"
proof (induction ps arbitrary: xs)
  case Nil
  then show ?case by (simp add: apply_notifications_def spec_replay_def)
next
  case (Cons p ps)
  from Cons.prems
  have fresh: "eventType p = ''INSERT'' \<longrightarrow> \<not> present (id' (new p)) xs"
    and rest: "inserts_fresh ps (on_postgres_changes p xs)" by simp_all
  have d: "distinct (map id' (on_postgres_changes p xs))"
    using handler_distinct [OF Cons.prems(1) fresh] .
  have e: "on_postgres_changes p xs = spec_step p xs"
    using handler_spec_step [OF Cons.prems(1) fresh] .
  note ih = Cons.IH [OF d rest]
  have a: "apply_notifications (p # ps) xs = apply_notifications ps (on_postgres_changes p xs)"
    by (simp add: apply_notifications_def)
  have b: "spec_replay (p # ps) xs = spec_replay ps (spec_step p xs)"
    by (simp add: spec_replay_def)
  show ?case
    unfolding a b e [symmetric] by (rule ih)
qed

lemma example_notifications_fresh: "inserts_fresh example_notifications []"
  by (simp add: example_notifications_def notify_def on_postgres_changes_def present_def
      oud_def lute_def ney_def)

text \<open>
  C1, as stated, fails: the \<^verbatim>\<open>INSERT\<close> branch appends without looking at the cache.
  Two insert notifications for the row with identifier 1, applied to the empty cache,
  leave two elements, where the replay with insert-if-absent leaves one.
\<close>

theorem insert_present_counterexample:
  "apply_notifications [notify ''INSERT'' oud, notify ''INSERT'' oud] [] = [oud, oud]
   \<and> spec_replay [notify ''INSERT'' oud, notify ''INSERT'' oud] [] = [oud]
   \<and> apply_notifications [notify ''INSERT'' oud, notify ''INSERT'' oud] []
       \<noteq> spec_replay [notify ''INSERT'' oud, notify ''INSERT'' oud] []"
  by (simp add: apply_notifications_def spec_replay_def on_postgres_changes_def
      spec_step_def spec_insert_if_absent_def present_def notify_def)

text \<open>
  C1, amended: for every sequence of insert, update and delete notifications in which
  no insert notification carries an identifier that the cache holds when it is applied,
  the handler, started on the empty cache, yields the ordered collection that the
  replay with insert-if-absent, replace-by-id and remove-by-id yields.
\<close>

theorem handler_refines_replay:
  "inserts_fresh ps [] \<Longrightarrow> apply_notifications ps [] = spec_replay ps []"
proof -
  assume fresh: "inserts_fresh ps []"
  have "distinct (map id' ([] :: instrument list))" by simp
  from handler_replay_from [OF this fresh] show ?thesis by (rule conjunct1)
qed

theorem handler_refines_replay_witness:
  "inserts_fresh example_notifications []
   \<and> apply_notifications example_notifications [] = spec_replay example_notifications []"
  by (rule conjI [OF example_notifications_fresh
        handler_refines_replay [OF example_notifications_fresh]])

text \<open>
  C8: an update notification whose identifier matches no row of the cache leaves the
  cache as it is, and so does such a delete notification; an update keeps the length of
  the cache and every row whose identifier is not the notification's.
\<close>

theorem unmatched_update_delete_unchanged:
  "(eventType p = ''UPDATE'' \<and> \<not> present (id' (new p)) cache
      \<longrightarrow> on_postgres_changes p cache = cache)
   \<and> (eventType p = ''DELETE'' \<and> \<not> present (id' (old p)) cache
      \<longrightarrow> on_postgres_changes p cache = cache)
   \<and> (eventType p = ''UPDATE''
      \<longrightarrow> length (on_postgres_changes p cache) = length cache
        \<and> (\<forall>k < length cache. id' (cache ! k) \<noteq> id' (new p)
              \<longrightarrow> on_postgres_changes p cache ! k = cache ! k))"
  by (simp add: on_postgres_changes_def present_iff filter_absent map_absent)

theorem unmatched_update_delete_unchanged_witness:
  "(eventType (notify ''UPDATE'' ney) = ''UPDATE''
      \<and> \<not> present (id' (new (notify ''UPDATE'' ney))) [oud])
   \<and> on_postgres_changes (notify ''UPDATE'' ney) [oud] = [oud]
   \<and> (eventType (notify ''DELETE'' ney) = ''DELETE''
      \<and> \<not> present (id' (old (notify ''DELETE'' ney))) [oud])
   \<and> on_postgres_changes (notify ''DELETE'' ney) [oud] = [oud]
   \<and> eventType (notify ''UPDATE'' lute) = ''UPDATE''
   \<and> length (on_postgres_changes (notify ''UPDATE'' lute) [oud, ney]) = length [oud, ney]
   \<and> on_postgres_changes (notify ''UPDATE'' lute) [oud, ney] ! 1 = [oud, ney] ! 1"
proof -
  let ?u = "notify ''UPDATE'' ney" and ?d = "notify ''DELETE'' ney"
    and ?l = "notify ''UPDATE'' lute"
  have h1: "eventType ?u = ''UPDATE'' \<and> \<not> present (id' (new ?u)) [oud]"
    by (simp add: notify_def present_def oud_def ney_def)
  have h2: "eventType ?d = ''DELETE'' \<and> \<not> present (id' (old ?d)) [oud]"
    by (simp add: notify_def present_def oud_def ney_def)
  have h3: "eventType ?l = ''UPDATE''"
    by (simp add: notify_def)
  note t1 = unmatched_update_delete_unchanged [of ?u "[oud]"]
  note t2 = unmatched_update_delete_unchanged [of ?d "[oud]"]
  note t3 = unmatched_update_delete_unchanged [of ?l "[oud, ney]"]
  have r1: "on_postgres_changes ?u [oud] = [oud]"
    by (rule mp [OF conjunct1 [OF t1] h1])
  have r2: "on_postgres_changes ?d [oud] = [oud]"
    by (rule mp [OF conjunct1 [OF conjunct2 [OF t2]] h2])
  have r3: "length (on_postgres_changes ?l [oud, ney]) = length [oud, ney]
    \<and> (\<forall>k < length [oud, ney]. id' ([oud, ney] ! k) \<noteq> id' (new ?l)
          \<longrightarrow> on_postgres_changes ?l [oud, ney] ! k = [oud, ney] ! k)"
    by (rule mp [OF conjunct2 [OF conjunct2 [OF t3]] h3])
  have k: "(1::nat) < length [oud, ney]" by simp
  have ne: "id' ([oud, ney] ! 1) \<noteq> id' (new ?l)"
    by (simp add: notify_def oud_def ney_def lute_def)
  have r4: "on_postgres_changes ?l [oud, ney] ! 1 = [oud, ney] ! 1"
    by (rule mp [OF mp [OF spec [OF conjunct2 [OF r3]] k] ne])
  show ?thesis
    by (rule conjI [OF h1 conjI [OF r1 conjI [OF h2 conjI [OF r2 conjI [OF h3
          conjI [OF conjunct1 [OF r3] r4]]]]]])
qed

section \<open>Logout\<close>

text \<open>\<^verbatim>\<open>handleLogout\<close> of \<^verbatim>\<open>App.jsx\<close> clears the session, the cache and the avatar.\<close>

lemma handleLogout_clears:
  "user (fst (handleLogout s)) = None \<and> instruments (fst (handleLogout s)) = []
   \<and> avatarUrl (fst (handleLogout s)) = None"
  by (simp add: handleLogout_def)

lemma handleLogout_part_001_avatar:
  "avatarUrl (fst (handleLogout_part_001 s)) = avatarUrl s
   \<and> instruments (fst (handleLogout_part_001 s)) = []"
  by (simp add: handleLogout_part_001_def)

text \<open>
  C2 at \<^verbatim>\<open>handleLogout\<close> of \<^verbatim>\<open>part_001\<close> (the same writes as \<^verbatim>\<open>part_000\<close>
  lines 747-752): started on a dashboard that shows an avatar, logout empties the row
  cache and leaves the avatar URL published; the session notification that follows
  (\<^verbatim>\<open>part_001\<close> lines 29-31) does not clear it either.
\<close>

theorem handleLogout_part_001_keeps_avatar:
  "instruments (fst (handleLogout_part_001 dashboard_part_001)) = []
   \<and> avatarUrl (fst (handleLogout_part_001 dashboard_part_001))
       = Some ''https://cdn.example.org/avatars/u0.png''
   \<and> avatarUrl (onAuthStateChange_part_001 None
         (fst (handleLogout_part_001 dashboard_part_001)))
       = Some ''https://cdn.example.org/avatars/u0.png''"
  by (simp add: handleLogout_part_001_def dashboard_part_001_def
      onAuthStateChange_part_001_def)

section \<open>Avatar resolver\<close>

text \<open>
  Where the resolver publishes "no avatar": \<^verbatim>\<open>fetchProfile\<close> of \<^verbatim>\<open>App.jsx\<close> when
  the read succeeds without a stored path, \<^verbatim>\<open>fetchAvatar\<close> of \<^verbatim>\<open>part_000\<close> also when
  the read fails. On a failed read \<^verbatim>\<open>fetchProfile\<close> of \<^verbatim>\<open>App.jsx\<close> writes nothing.
\<close>

lemma fetchProfile_no_path:
  "error res = None \<Longrightarrow> stored_path (data res) = None \<Longrightarrow>
   avatarUrl (fst (fetchProfile g u res s)) = None"
  by (simp add: fetchProfile_def)

lemma fetchProfile_error_keeps:
  "error res = Some e \<Longrightarrow> fst (fetchProfile g u res s) = s"
  by (simp add: fetchProfile_def)

lemma fetchAvatar_part_000_no_avatar:
  "user s = Some u \<Longrightarrow> error res \<noteq> None \<or> stored_path (data res) = None \<Longrightarrow>
   avatarUrl (fst (fetchAvatar_part_000 g res s)) = None"
  by (auto simp add: fetchAvatar_part_000_def)

lemma fetchProfile_part_001_keeps:
  "error res \<noteq> None \<or> stored_path (data res) = None \<Longrightarrow>
   fst (fetchProfile_part_001 g res s) = s"
  by (auto simp add: fetchProfile_part_001_def split: option.splits)

text \<open>
  C3 at \<^verbatim>\<open>fetchProfile\<close> of \<^verbatim>\<open>part_001\<close>: the profile read succeeds and the record
  has no stored avatar path (\<^verbatim>\<open>avatar_url\<close> is \<^verbatim>\<open>null\<close>), while the URL of an
  earlier user is published. The run leaves that URL published. So does
  \<^verbatim>\<open>fetchProfile\<close> of \<^verbatim>\<open>App.jsx\<close> when the profile read returns an error.
\<close>

theorem fetchProfile_part_001_stale_avatar:
  "stored_path (data \<lparr>data = Some \<lparr>avatar_url = None\<rparr>, error = None\<rparr>) = None
   \<and> avatarUrl (fst (fetchProfile_part_001 public_url
         \<lparr>data = Some \<lparr>avatar_url = None\<rparr>, error = None\<rparr> dashboard_part_001))
       = Some ''https://cdn.example.org/avatars/u0.png''
   \<and> avatarUrl (fst (fetchProfile public_url alice
         \<lparr>data = None, error = Some denied\<rparr> dashboard))
       = Some ''https://cdn.example.org/avatars/u0.png''"
  by (simp add: fetchProfile_part_001_def fetchProfile_def dashboard_part_001_def
      dashboard_def stored_path_def)

section \<open>Upload flow\<close>

text \<open>
  C4: when a file is selected, the storage write succeeds and the profile write fails,
  the handler ends with the avatar URL it started with and the uploading flag false;
  it has issued the two writes and one dialog, and no URL resolution. Both for
  \<^verbatim>\<open>App.jsx\<close> and for the version of \<^verbatim>\<open>part_000\<close>.
\<close>

theorem upload_profile_write_failure:
  "user s = Some u \<Longrightarrow> user t = Some u \<Longrightarrow>
   (avatarUrl (fst (handleAvatarUpload g (f # fs) None (Some e) s)) = avatarUrl s
    \<and> \<not> uploading (fst (handleAvatarUpload g (f # fs) None (Some e) s))
    \<and> snd (handleAvatarUpload g (f # fs) None (Some e) s) =
        [StorageUpload (auth_id u @ ''.'' @ fileExt (file_name f)) f,
         ProfileUpsert (auth_id u) (auth_id u @ ''.'' @ fileExt (file_name f)),
         Alert (''Avatar upload failed: '' @ message e)])
   \<and> (avatarUrl (fst (handleAvatarUpload_part_000 h (f # fs) None (Some e) t)) = avatarUrl t
    \<and> \<not> uploading (fst (handleAvatarUpload_part_000 h (f # fs) None (Some e) t))
    \<and> snd (handleAvatarUpload_part_000 h (f # fs) None (Some e) t) =
        [StorageUpload (''avatars/'' @ auth_id u @ ''.'' @ fileExt (file_name f)) f,
         ProfileUpdate (auth_id u) (''avatars/'' @ auth_id u @ ''.'' @ fileExt (file_name f)),
         Alert (''Avatar upload failed: '' @ message e)])"
  by (simp add: handleAvatarUpload_def handleAvatarUpload_try_def
      handleAvatarUpload_part_000_def handleAvatarUpload_try_part_000_def Let_def)

theorem upload_profile_write_failure_witness:
  "user dashboard = Some alice \<and> user dashboard_part_001 = Some alice
   \<and> (avatarUrl (fst (handleAvatarUpload public_url (photo # []) None (Some denied)
          dashboard)) = avatarUrl dashboard
    \<and> \<not> uploading (fst (handleAvatarUpload public_url (photo # []) None (Some denied)
          dashboard))
    \<and> snd (handleAvatarUpload public_url (photo # []) None (Some denied) dashboard) =
        [StorageUpload (auth_id alice @ ''.'' @ fileExt (file_name photo)) photo,
         ProfileUpsert (auth_id alice) (auth_id alice @ ''.'' @ fileExt (file_name photo)),
         Alert (''Avatar upload failed: '' @ message denied)])
   \<and> (avatarUrl (fst (handleAvatarUpload_part_000 (\<lambda>path. Some (public_url path))
          (photo # []) None (Some denied) dashboard_part_001)) = avatarUrl dashboard_part_001
    \<and> \<not> uploading (fst (handleAvatarUpload_part_000 (\<lambda>path. Some (public_url path))
          (photo # []) None (Some denied) dashboard_part_001))
    \<and> snd (handleAvatarUpload_part_000 (\<lambda>path. Some (public_url path))
          (photo # []) None (Some denied) dashboard_part_001) =
        [StorageUpload (''avatars/'' @ auth_id alice @ ''.'' @ fileExt (file_name photo)) photo,
         ProfileUpdate (auth_id alice)
           (''avatars/'' @ auth_id alice @ ''.'' @ fileExt (file_name photo)),
         Alert (''Avatar upload failed: '' @ message denied)])"
proof -
  have h1: "user dashboard = Some alice" by (simp add: dashboard_def)
  have h2: "user dashboard_part_001 = Some alice" by (simp add: dashboard_part_001_def)
  show ?thesis
    by (rule conjI [OF h1 conjI [OF h2 upload_profile_write_failure [OF h1 h2]]])
qed

text \<open>
  C9: with no file selected the handler issues nothing (no storage write, no profile
  write, no URL resolution, no dialog) and returns the state it started with, the
  uploading flag false. \<^verbatim>\<open>part_001\<close> lines 128-157 are the text of \<^verbatim>\<open>App.jsx\<close>.
\<close>

theorem upload_without_file:
  "snd (handleAvatarUpload g [] uploadError updateError s) = []
   \<and> fst (handleAvatarUpload g [] uploadError updateError s) = s\<lparr>uploading := False\<rparr>
   \<and> avatarUrl (fst (handleAvatarUpload g [] uploadError updateError s)) = avatarUrl s
   \<and> \<not> uploading (fst (handleAvatarUpload g [] uploadError updateError s))"
  by (simp add: handleAvatarUpload_def handleAvatarUpload_try_def)

section \<open>Login\<close>

text \<open>
  C5: on the login screen (no session, empty row cache), a sign-in that the service
  rejects leaves the session absent and the row cache empty and shows the error's
  message in a dialog; in \<^verbatim>\<open>App.jsx\<close> and in \<^verbatim>\<open>part_001\<close>.
\<close>

theorem login_rejected:
  "user s = None \<Longrightarrow> instruments s = [] \<Longrightarrow> user t = None \<Longrightarrow> instruments t = [] \<Longrightarrow>
   (user (fst (handleLogin (Some e) s)) = None
    \<and> instruments (fst (handleLogin (Some e) s)) = []
    \<and> Alert (message e) \<in> set (snd (handleLogin (Some e) s)))
   \<and> (user (fst (handleLogin_part_001 (Some e) t)) = None
    \<and> instruments (fst (handleLogin_part_001 (Some e) t)) = []
    \<and> Alert (''Login failed: '' @ message e) \<in> set (snd (handleLogin_part_001 (Some e) t)))"
  by (simp add: handleLogin_def handleLogin_part_001_def)

theorem login_rejected_witness:
  "user login_screen = None \<and> instruments login_screen = []
   \<and> user login_screen_part_001 = None \<and> instruments login_screen_part_001 = []
   \<and> (user (fst (handleLogin (Some invalid_credentials) login_screen)) = None
    \<and> instruments (fst (handleLogin (Some invalid_credentials) login_screen)) = []
    \<and> Alert (message invalid_credentials)
        \<in> set (snd (handleLogin (Some invalid_credentials) login_screen)))
   \<and> (user (fst (handleLogin_part_001 (Some invalid_credentials) login_screen_part_001))
        = None
    \<and> instruments (fst (handleLogin_part_001 (Some invalid_credentials)
          login_screen_part_001)) = []
    \<and> Alert (''Login failed: '' @ message invalid_credentials)
        \<in> set (snd (handleLogin_part_001 (Some invalid_credentials)
              login_screen_part_001)))"
proof -
  have h1: "user login_screen = None" and h2: "instruments login_screen = []"
    by (simp_all add: login_screen_def)
  have h3: "user login_screen_part_001 = None"
    and h4: "instruments login_screen_part_001 = []"
    by (simp_all add: login_screen_part_001_def)
  show ?thesis
    by (rule conjI [OF h1 conjI [OF h2 conjI [OF h3 conjI [OF h4
          login_rejected [OF h1 h2 h3 h4]]]]])
qed

section \<open>Bulk row read\<close>

text \<open>
  C6, as stated, fails: the error branch of \<^verbatim>\<open>fetchInstruments\<close> writes no cell, so
  a cache that holds a row when the read fails holds it afterwards.
\<close>

theorem fetchInstruments_error_counterexample:
  "error \<lparr>data = None :: instrument list option, error = Some denied\<rparr> = Some denied
   \<and> instruments (fst (fetchInstruments alice \<lparr>data = None, error = Some denied\<rparr>
        dashboard)) = [oud]
   \<and> instruments (fst (fetchInstruments alice \<lparr>data = None, error = Some denied\<rparr>
        dashboard)) \<noteq> []"
  by (simp add: fetchInstruments_def dashboard_def)

text \<open>
  C6, amended: a bulk row read that returns an error writes the error's message to the
  console and nothing else, shows no dialog, and leaves the state, the row cache with
  it, as it was; a cache that was empty before the read is empty after it.
\<close>

theorem fetchInstruments_error_silent:
  "error res = Some e \<Longrightarrow> user t = Some u \<Longrightarrow>
   (fetchInstruments u res s =
      (s, [SelectInstruments (auth_id u),
           ConsoleError ''Error fetching instruments:'' (message e)])
    \<and> instruments (fst (fetchInstruments u res s)) = instruments s)
   \<and> (fetchInstruments_part_001 rows (Some e) t =
      (t, [SelectInstruments (auth_id u),
           ConsoleError ''Error fetching instruments:'' (message e)])
    \<and> instruments (fst (fetchInstruments_part_001 rows (Some e) t)) = instruments t)"
  by (simp add: fetchInstruments_def fetchInstruments_part_001_def)

theorem fetchInstruments_error_silent_witness:
  "error \<lparr>data = None :: instrument list option, error = Some denied\<rparr> = Some denied
   \<and> user dashboard_part_001 = Some alice
   \<and> (fetchInstruments alice \<lparr>data = None, error = Some denied\<rparr> login_screen =
      (login_screen, [SelectInstruments (auth_id alice),
           ConsoleError ''Error fetching instruments:'' (message denied)])
    \<and> instruments (fst (fetchInstruments alice \<lparr>data = None, error = Some denied\<rparr>
         login_screen)) = instruments login_screen)
   \<and> (fetchInstruments_part_001 [ney] (Some denied) dashboard_part_001 =
      (dashboard_part_001, [SelectInstruments (auth_id alice),
           ConsoleError ''Error fetching instruments:'' (message denied)])
    \<and> instruments (fst (fetchInstruments_part_001 [ney] (Some denied) dashboard_part_001))
        = instruments dashboard_part_001)"
proof -
  have h1: "error \<lparr>data = None :: instrument list option, error = Some denied\<rparr>
    = Some denied" by simp
  have h2: "user dashboard_part_001 = Some alice" by (simp add: dashboard_part_001_def)
  show ?thesis
    by (rule conjI [OF h1 conjI [OF h2 fetchInstruments_error_silent [OF h1 h2]]])
qed

section \<open>Start-up\<close>

text \<open>
  In \<^verbatim>\<open>App.jsx\<close> mounting issues one \<^verbatim>\<open>getSession\<close> and the component shows the
  loading view until \<^verbatim>\<open>fetchUser\<close> or the listener writes \<^verbatim>\<open>loading\<close>.
\<close>

lemma mount_loading:
  "render (fst (mount initial_state)) = LoadingView
   \<and> count_list (snd (mount initial_state)) GetSession = 1"
  by (simp add: render_def mount_def initial_state_def)

lemma fetchUser_ends_loading: "render (fetchUser sess s) \<noteq> LoadingView"
  by (simp add: render_def fetchUser_def)

lemma onAuthStateChange_ends_loading:
  "render (fst (onAuthStateChange g sess pr ir s)) \<noteq> LoadingView"
  by (simp add: render_def onAuthStateChange_def fetchProfile_def fetchInstruments_def
      Let_def split: option.splits)

lemma render_part_001_never_loading: "render_part_001 s \<noteq> LoadingView"
  by (simp add: render_part_001_def)

text \<open>
  C7 at \<^verbatim>\<open>part_001\<close>: the component has no \<^verbatim>\<open>loading\<close> cell. Mounted, with
  \<^verbatim>\<open>getSession\<close> issued once and not yet resolved, it shows the login screen.
\<close>

theorem part_001_login_view_at_startup:
  "count_list (snd (mount initial_state_part_001)) GetSession = 1
   \<and> render_part_001 (fst (mount initial_state_part_001)) = LoginView"
  by (simp add: render_part_001_def mount_def initial_state_part_001_def)

section \<open>Adding a row\<close>

text \<open>
  C10: with an empty name field \<^verbatim>\<open>handleAddInstrument\<close> issues no request and leaves
  the state as it is; when the insert succeeds it clears the name field and writes
  nothing else; whatever the outcome, it does not write the row cache.
\<close>

theorem add_instrument_frame:
  "(instrumentName s = [] \<longrightarrow> handleAddInstrument err s = (s, []))
   \<and> (instrumentName s \<noteq> [] \<and> user s = Some u \<longrightarrow>
        handleAddInstrument None s =
          (s\<lparr>instrumentName := []\<rparr>,
           [InsertInstrument (instrumentName s) (auth_id u)]))
   \<and> instruments (fst (handleAddInstrument err s)) = instruments s"
  by (simp add: handleAddInstrument_def split: option.splits)

theorem add_instrument_frame_witness:
  "instrumentName login_screen = []
   \<and> handleAddInstrument (Some denied) login_screen = (login_screen, [])
   \<and> (instrumentName dashboard \<noteq> [] \<and> user dashboard = Some alice)
   \<and> handleAddInstrument None dashboard =
       (dashboard\<lparr>instrumentName := []\<rparr>,
        [InsertInstrument (instrumentName dashboard) (auth_id alice)])
   \<and> instruments (fst (handleAddInstrument None dashboard)) = instruments dashboard"
proof -
  have h1: "instrumentName login_screen = []" by (simp add: login_screen_def)
  have h2: "instrumentName dashboard \<noteq> [] \<and> user dashboard = Some alice"
    by (simp add: dashboard_def)
  note t1 = add_instrument_frame [of login_screen "Some denied" alice]
  note t2 = add_instrument_frame [of dashboard None alice]
  have r1: "handleAddInstrument (Some denied) login_screen = (login_screen, [])"
    by (rule mp [OF conjunct1 [OF t1] h1])
  have r2: "handleAddInstrument None dashboard =
       (dashboard\<lparr>instrumentName := []\<rparr>,
        [InsertInstrument (instrumentName dashboard) (auth_id alice)])"
    by (rule mp [OF conjunct1 [OF conjunct2 [OF t2]] h2])
  have r3: "instruments (fst (handleAddInstrument None dashboard)) = instruments dashboard"
    by (rule conjunct2 [OF conjunct2 [OF t2]])
  show ?thesis
    by (rule conjI [OF h1 conjI [OF r1 conjI [OF h2 conjI [OF r2 r3]]]])
qed

end
